theory Spec2Isabelle
  imports Main "HOL-Library.Sublist"
begin

section \<open>The Linux method-call handler of custom_tooltip_flutter\<close>

text \<open>
  The embedded code is \<^verbatim>\<open>linux/custom_tooltip_flutter_plugin.cc\<close>: the handler
  \<^verbatim>\<open>custom_tooltip_flutter_plugin_handle_method_call\<close> and its helper
  \<^verbatim>\<open>get_platform_version\<close>. Everything the handler calls outside the file
  (the Flutter embedder objects, libc's \<^verbatim>\<open>strcmp\<close>, \<^verbatim>\<open>uname\<close>, GLib's
  \<^verbatim>\<open>g_strdup_printf\<close>) is written out below as far as the handler uses it.

  A \<^verbatim>\<open>gchar*\<close> string is modelled by the list of its bytes before the terminating
  NUL, so a well-formed string holds no NUL byte (\<open>c_string\<close>).
\<close>

subsection \<open>Data\<close>

text \<open>The values of the standard method codec (the ones without floating point).\<close>

datatype FlValue =
    FlValueNull
  | FlValueBool bool
  | FlValueInt int
  | FlValueString string
  | FlValueList "FlValue list"

text \<open>The three kinds of response a method call can be answered with.\<close>

datatype FlMethodResponse =
    FlMethodSuccessResponse FlValue
  | FlMethodNotImplementedResponse
  | FlMethodErrorResponse string string FlValue

record FlMethodCall =
  name :: string
  args :: FlValue

text \<open>\<^verbatim>\<open>struct utsname\<close> of \<^verbatim>\<open><sys/utsname.h>\<close>; each field is a NUL-terminated
  character array.\<close>

record utsname =
  sysname :: string
  nodename :: string
  release :: string
  version :: string
  machine :: string

record GObject =
  ref_count :: nat

text \<open>\<^verbatim>\<open>struct _CustomTooltipFlutterPlugin { GObject parent_instance; }\<close>\<close>

record CustomTooltipFlutterPlugin =
  parent_instance :: GObject

text \<open>
  The operating system is a parameter: \<^verbatim>\<open>uname(buf)\<close> receives the caller's buffer
  and gives back its return code (negative on failure) with the buffer as it left it.
\<close>

type_synonym uname_fn = "utsname \<Rightarrow> int \<times> utsname"

text \<open>
  The channel transport, as far as the handler can affect it: the responses handed over
  so far, in order, each with the call it answers.
\<close>

type_synonym transport = "(FlMethodCall \<times> FlMethodResponse) list"

subsection \<open>Library functions used by the handler\<close>

definition c_string :: "string \<Rightarrow> bool" where
  "c_string s = (CHR 0x00 \<notin> set s)"

text \<open>\<^verbatim>\<open>strcmp\<close>: the difference of the first two bytes that differ, read as
  unsigned char, the terminator counting as 0.\<close>

fun strcmp :: "string \<Rightarrow> string \<Rightarrow> int" where
  "strcmp [] [] = 0"
| "strcmp [] (b # bs) = - of_char b"
| "strcmp (a # as) [] = of_char a"
| "strcmp (a # as) (b # bs) =
     (if a = b then strcmp as bs else of_char a - of_char b)"

text \<open>\<^verbatim>\<open>g_strdup_printf\<close> with one string argument: every \<^verbatim>\<open>%s\<close> of the format
  is replaced by the argument, every other character is copied.\<close>

fun g_strdup_printf :: "string \<Rightarrow> string \<Rightarrow> string" where
  "g_strdup_printf (c # d # fmt) s =
     (if c = CHR ''%'' \<and> d = CHR ''s'' then s @ g_strdup_printf fmt s
      else c # g_strdup_printf (d # fmt) s)"
| "g_strdup_printf fmt s = fmt"

definition fl_value_new_string :: "string \<Rightarrow> FlValue" where
  "fl_value_new_string s = FlValueString s"

definition fl_method_success_response_new :: "FlValue \<Rightarrow> FlMethodResponse" where
  "fl_method_success_response_new result = FlMethodSuccessResponse result"

definition fl_method_not_implemented_response_new :: "FlMethodResponse" where
  "fl_method_not_implemented_response_new = FlMethodNotImplementedResponse"

definition fl_method_call_get_name :: "FlMethodCall \<Rightarrow> string" where
  "fl_method_call_get_name method_call = name method_call"

text \<open>\<^verbatim>\<open>fl_method_call_respond\<close> hands one response for the call to the transport.\<close>

definition fl_method_call_respond ::
  "FlMethodCall \<Rightarrow> FlMethodResponse \<Rightarrow> transport \<Rightarrow> transport" where
  "fl_method_call_respond method_call response tr = tr @ [(method_call, response)]"

subsection \<open>The plugin\<close>

text \<open>\<^verbatim>\<open>struct utsname uname_data = {};\<close> every field is the empty string.\<close>

definition utsname_zero :: utsname where
  "utsname_zero =
     \<lparr>sysname = [], nodename = [], release = [], version = [], machine = []\<rparr>"

text \<open>The return code of \<^verbatim>\<open>uname\<close> is dropped, as in the source.\<close>

definition get_platform_version :: "uname_fn \<Rightarrow> FlMethodResponse" where
  "get_platform_version os_uname =
     (let uname_data = utsname_zero;
          uname_data = snd (os_uname uname_data);
          version_str = g_strdup_printf ''Linux %s'' (version uname_data);
          result = fl_value_new_string version_str
      in fl_method_success_response_new result)"

text \<open>
  The handler returns nothing; what it can change is the plugin object it is given and
  the transport, so the model returns both.
\<close>

definition custom_tooltip_flutter_plugin_handle_method_call ::
  "uname_fn \<Rightarrow> CustomTooltipFlutterPlugin \<Rightarrow> FlMethodCall \<Rightarrow> transport
     \<Rightarrow> CustomTooltipFlutterPlugin \<times> transport" where
  "custom_tooltip_flutter_plugin_handle_method_call os_uname self method_call tr =
     (let method = fl_method_call_get_name method_call;
          response =
            (if strcmp method ''getPlatformVersion'' = 0
             then get_platform_version os_uname
             else fl_method_not_implemented_response_new)
      in (self, fl_method_call_respond method_call response tr))"

subsection \<open>The claims in the words of the specification\<close>

text \<open>The platform version string as the specification describes it: the OS family
  name, a space, the OS release string.\<close>

definition spec_platform_version :: "utsname \<Rightarrow> string" where
  "spec_platform_version u = sysname u @ '' '' @ release u"

text \<open>The pattern of the specification's scenario: a success response whose string is
  \<^verbatim>\<open>"Linux "\<close> followed by something non-empty.\<close>

fun spec_linux_pattern :: "FlMethodResponse \<Rightarrow> bool" where
  "spec_linux_pattern (FlMethodSuccessResponse (FlValueString s)) =
     (take 6 s = ''Linux '' \<and> drop 6 s \<noteq> [])"
| "spec_linux_pattern _ = False"

subsection \<open>Concrete hosts and calls\<close>

text \<open>A host on which \<^verbatim>\<open>uname\<close> succeeds.\<close>

definition uname_ubuntu :: uname_fn where
  "uname_ubuntu buf =
     (0, \<lparr>sysname = ''Linux'', nodename = ''build-host'',
          release = ''5.15.0-91-generic'',
          version = ''#101-Ubuntu SMP Tue Nov 14 13:30:08 UTC 2023'',
          machine = ''x86_64''\<rparr>)"

text \<open>A host on which \<^verbatim>\<open>uname\<close> fails and leaves the buffer as it was.\<close>

definition uname_fails :: uname_fn where
  "uname_fails buf = (- 1, buf)"

definition plugin0 :: CustomTooltipFlutterPlugin where
  "plugin0 = \<lparr>parent_instance = \<lparr>ref_count = 1\<rparr>\<rparr>"

definition call_version :: FlMethodCall where
  "call_version = \<lparr>name = ''getPlatformVersion'', args = FlValueNull\<rparr>"

definition call_other :: FlMethodCall where
  "call_other = \<lparr>name = ''doSomethingElse'', args = FlValueNull\<rparr>"

definition call_version_args :: FlMethodCall where
  "call_version_args =
     \<lparr>name = ''getPlatformVersion'',
      args = FlValueList [FlValueInt 7, FlValueString ''verbose'']\<rparr>"

section \<open>Properties\<close>

subsection \<open>Shared lemmas\<close>

lemma strcmp_same: "strcmp s s = 0"
  by (induction s) simp_all

lemma strcmp_zero_iff:
  "c_string a \<Longrightarrow> c_string b \<Longrightarrow> strcmp a b = 0 \<longleftrightarrow> a = b"
proof (induction a b rule: strcmp.induct)
  case 1
  then show ?case by simp
next
  case (2 b bs)
  have "(of_char b :: int) = 0 \<longleftrightarrow> b = CHR 0x00"
    using of_char_eq_iff [of b "CHR 0x00", where ?'a = int] by simp
  with 2 show ?case by (auto simp add: c_string_def)
next
  case (3 a as)
  have "(of_char a :: int) = 0 \<longleftrightarrow> a = CHR 0x00"
    using of_char_eq_iff [of a "CHR 0x00", where ?'a = int] by simp
  with 3 show ?case by (auto simp add: c_string_def)
next
  case (4 a as b bs)
  then show ?case by (simp add: c_string_def)
qed

lemma c_string_method: "c_string ''getPlatformVersion''"
  by (simp add: c_string_def)

lemma format_Linux: "g_strdup_printf ''Linux %s'' v = ''Linux '' @ v"
  by simp

lemma get_platform_version_eq:
  "get_platform_version os_uname =
     FlMethodSuccessResponse
       (FlValueString (''Linux '' @ version (snd (os_uname utsname_zero))))"
  by (simp add: get_platform_version_def fl_value_new_string_def
      fl_method_success_response_new_def)

lemma handle_version:
  assumes "name method_call = ''getPlatformVersion''"
  shows "custom_tooltip_flutter_plugin_handle_method_call os_uname self method_call tr =
    (self, tr @ [(method_call, FlMethodSuccessResponse
       (FlValueString (''Linux '' @ version (snd (os_uname utsname_zero)))))])"
  using assms strcmp_same [of "''getPlatformVersion''"]
  by (simp add: custom_tooltip_flutter_plugin_handle_method_call_def
      fl_method_call_get_name_def fl_method_call_respond_def get_platform_version_eq
      del: strcmp.simps)

lemma handle_other:
  assumes "c_string (name method_call)" and "name method_call \<noteq> ''getPlatformVersion''"
  shows "custom_tooltip_flutter_plugin_handle_method_call os_uname self method_call tr =
    (self, tr @ [(method_call, FlMethodNotImplementedResponse)])"
proof -
  have "strcmp (name method_call) ''getPlatformVersion'' \<noteq> 0"
    using assms strcmp_zero_iff [OF assms(1) c_string_method] by simp
  then show ?thesis
    by (simp only: custom_tooltip_flutter_plugin_handle_method_call_def Let_def
        fl_method_call_get_name_def fl_method_call_respond_def
        fl_method_not_implemented_response_new_def if_False)
qed

lemma handle_cases:
  "custom_tooltip_flutter_plugin_handle_method_call os_uname self method_call tr =
    (self, tr @ [(method_call,
       if strcmp (name method_call) ''getPlatformVersion'' = 0
       then FlMethodSuccessResponse
              (FlValueString (''Linux '' @ version (snd (os_uname utsname_zero))))
       else FlMethodNotImplementedResponse)])"
  by (simp add: custom_tooltip_flutter_plugin_handle_method_call_def
      fl_method_call_get_name_def fl_method_call_respond_def get_platform_version_eq
      fl_method_not_implemented_response_new_def del: strcmp.simps)

lemma uname_fails_zero: "snd (uname_fails utsname_zero) = utsname_zero"
  by (simp add: uname_fails_def)

lemma version_zero: "version utsname_zero = []"
  by (simp add: utsname_zero_def)

lemma version_ubuntu:
  "version (snd (uname_ubuntu buf)) = ''#101-Ubuntu SMP Tue Nov 14 13:30:08 UTC 2023''"
  by (simp add: uname_ubuntu_def)

lemma name_call_version: "name call_version = ''getPlatformVersion''"
  by (simp add: call_version_def)

subsection \<open>The version call\<close>

text \<open>
  C1 (as amended). For every method call whose name equals \<^verbatim>\<open>getPlatformVersion\<close>,
  the handler queries the operating system with \<^verbatim>\<open>uname\<close> on a zero-initialised
  buffer, formats the literal \<^verbatim>\<open>Linux\<close>, a space and the \<^verbatim>\<open>version\<close> field of
  the buffer (not the queried family name and not the \<^verbatim>\<open>release\<close> field), and
  answers the call with a success response carrying that string.
\<close>

theorem C1_version_response:
  assumes "name method_call = ''getPlatformVersion''"
  shows "snd (custom_tooltip_flutter_plugin_handle_method_call os_uname self method_call tr) =
    tr @ [(method_call, FlMethodSuccessResponse
      (FlValueString (''Linux '' @ version (snd (os_uname utsname_zero)))))]"
  using handle_version [OF assms, of os_uname self tr] by simp

text \<open>On the successful host the theorem gives the build string of the kernel.\<close>

theorem C1_version_response_witness:
  "name call_version = ''getPlatformVersion'' \<and>
   snd (custom_tooltip_flutter_plugin_handle_method_call uname_ubuntu plugin0 call_version []) =
     [(call_version, FlMethodSuccessResponse
        (FlValueString ''Linux #101-Ubuntu SMP Tue Nov 14 13:30:08 UTC 2023''))]"
  using C1_version_response [OF name_call_version, of uname_ubuntu plugin0 "[]"]
  by (simp add: name_call_version version_ubuntu)

text \<open>
  The string the specification describes, family name then release, is a different one
  on that host: the handler does not answer with it.
\<close>

theorem C1_release_counterexample:
  "spec_platform_version (snd (uname_ubuntu utsname_zero)) = ''Linux 5.15.0-91-generic'' \<and>
   snd (custom_tooltip_flutter_plugin_handle_method_call uname_ubuntu plugin0 call_version []) \<noteq>
     [(call_version, FlMethodSuccessResponse
        (FlValueString (spec_platform_version (snd (uname_ubuntu utsname_zero)))))]"
proof -
  have spec: "spec_platform_version (snd (uname_ubuntu utsname_zero)) =
      ''Linux 5.15.0-91-generic''"
    by (simp add: spec_platform_version_def uname_ubuntu_def)
  have code: "snd (custom_tooltip_flutter_plugin_handle_method_call uname_ubuntu plugin0 call_version []) =
     [(call_version, FlMethodSuccessResponse
        (FlValueString ''Linux #101-Ubuntu SMP Tue Nov 14 13:30:08 UTC 2023''))]"
    using handle_version [OF name_call_version, of uname_ubuntu plugin0 "[]"]
    by (simp add: version_ubuntu)
  show ?thesis
    unfolding spec code by simp
qed

subsection \<open>Every other call\<close>

text \<open>
  C2. For every method call whose name is a string other than exactly
  \<^verbatim>\<open>getPlatformVersion\<close> (the empty string and differently-cased variants
  included), the handler answers with the not-implemented response.
\<close>

theorem C2_other_name_not_implemented:
  assumes "c_string (name method_call)"
    and "name method_call \<noteq> ''getPlatformVersion''"
  shows "snd (custom_tooltip_flutter_plugin_handle_method_call os_uname self method_call tr) =
    tr @ [(method_call, FlMethodNotImplementedResponse)]"
  using handle_other [OF assms, of os_uname self tr] by simp

text \<open>The empty name.\<close>

theorem C2_other_name_not_implemented_witness:
  "c_string (name \<lparr>name = [], args = FlValueNull\<rparr>) \<and>
   name \<lparr>name = [], args = FlValueNull\<rparr> \<noteq> ''getPlatformVersion'' \<and>
   snd (custom_tooltip_flutter_plugin_handle_method_call uname_ubuntu plugin0 \<lparr>name = [], args = FlValueNull\<rparr> []) =
     [(\<lparr>name = [], args = FlValueNull\<rparr>, FlMethodNotImplementedResponse)]"
proof -
  have h1: "c_string (name \<lparr>name = [], args = FlValueNull\<rparr>)"
    by (simp add: c_string_def)
  have h2: "name \<lparr>name = [], args = FlValueNull\<rparr> \<noteq> ''getPlatformVersion''"
    by simp
  show ?thesis
    using h1 h2 C2_other_name_not_implemented [OF h1 h2, of uname_ubuntu plugin0 "[]"]
    by simp
qed

text \<open>The specification's other examples: a different name, and a different casing.\<close>

lemma other_name_examples:
  "snd (custom_tooltip_flutter_plugin_handle_method_call uname_ubuntu plugin0 call_other []) =
     [(call_other, FlMethodNotImplementedResponse)]"
  "snd (custom_tooltip_flutter_plugin_handle_method_call uname_ubuntu plugin0
          \<lparr>name = ''GetPlatformVersion'', args = FlValueNull\<rparr> []) =
     [(\<lparr>name = ''GetPlatformVersion'', args = FlValueNull\<rparr>, FlMethodNotImplementedResponse)]"
  by (simp_all add: handle_cases call_other_def)

subsection \<open>The shape of the version string\<close>

text \<open>
  C3 (as amended). For every method call named \<^verbatim>\<open>getPlatformVersion\<close>, the string
  carried by the success response is \<^verbatim>\<open>"Linux "\<close> followed by a suffix, and the
  suffix is the \<^verbatim>\<open>version\<close> field that the query left in the zero-initialised
  buffer: the response matches the pattern with a non-empty suffix exactly when that
  field is non-empty.
\<close>

theorem C3_suffix_is_version_field:
  assumes "name method_call = ''getPlatformVersion''"
  shows "\<exists>suffix. snd (custom_tooltip_flutter_plugin_handle_method_call os_uname self method_call tr) =
      tr @ [(method_call, FlMethodSuccessResponse (FlValueString (''Linux '' @ suffix)))] \<and>
    suffix = version (snd (os_uname utsname_zero)) \<and>
    spec_linux_pattern (FlMethodSuccessResponse (FlValueString (''Linux '' @ suffix))) =
      (version (snd (os_uname utsname_zero)) \<noteq> [])"
  using handle_version [OF assms, of os_uname self tr] by simp

theorem C3_suffix_is_version_field_witness:
  "name call_version = ''getPlatformVersion'' \<and>
   (\<exists>suffix. snd (custom_tooltip_flutter_plugin_handle_method_call uname_ubuntu plugin0 call_version []) =
      [(call_version, FlMethodSuccessResponse (FlValueString (''Linux '' @ suffix)))] \<and>
    suffix = ''#101-Ubuntu SMP Tue Nov 14 13:30:08 UTC 2023'' \<and>
    spec_linux_pattern (FlMethodSuccessResponse (FlValueString (''Linux '' @ suffix))))"
  using C3_suffix_is_version_field [OF name_call_version, of uname_ubuntu plugin0 "[]"]
  by (simp add: name_call_version version_ubuntu)

text \<open>
  When \<^verbatim>\<open>uname\<close> fails and leaves the buffer untouched, the handler answers with
  \<^verbatim>\<open>"Linux "\<close> alone, which does not match the pattern.
\<close>

theorem C3_empty_suffix_counterexample:
  "snd (custom_tooltip_flutter_plugin_handle_method_call uname_fails plugin0 call_version []) =
     [(call_version, FlMethodSuccessResponse (FlValueString ''Linux ''))] \<and>
   \<not> spec_linux_pattern (FlMethodSuccessResponse (FlValueString ''Linux ''))"
  using handle_version [OF name_call_version, of uname_fails plugin0 "[]"]
  by (simp add: uname_fails_zero version_zero)

text \<open>
  C6. For every method call named \<^verbatim>\<open>getPlatformVersion\<close>, the response is a
  success response carrying a string that is non-empty and contains the OS family token:
  it starts with \<^verbatim>\<open>"Linux "\<close>, and whenever the host reports the family name
  \<^verbatim>\<open>Linux\<close> the reported family name occurs in it.
\<close>

theorem C6_nonempty_with_family_token:
  assumes "name method_call = ''getPlatformVersion''"
  shows "\<exists>s. snd (custom_tooltip_flutter_plugin_handle_method_call os_uname self method_call tr) =
      tr @ [(method_call, FlMethodSuccessResponse (FlValueString s))] \<and>
    s \<noteq> [] \<and> prefix ''Linux '' s \<and> sublist ''Linux'' s \<and>
    (sysname (snd (os_uname utsname_zero)) = ''Linux'' \<longrightarrow>
       sublist (sysname (snd (os_uname utsname_zero))) s)"
proof -
  let ?v = "version (snd (os_uname utsname_zero))"
  let ?s = "''Linux '' @ ?v"
  have run: "snd (custom_tooltip_flutter_plugin_handle_method_call os_uname self method_call tr) =
      tr @ [(method_call, FlMethodSuccessResponse (FlValueString ?s))]"
    using handle_version [OF assms, of os_uname self tr] by simp
  have "?s = [] @ ''Linux'' @ ('' '' @ ?v)"
    by simp
  then have token: "sublist ''Linux'' ?s"
    unfolding sublist_def by blast
  have start: "prefix ''Linux '' ?s"
    by (rule prefixI) simp
  have "?s \<noteq> []"
    by simp
  with run token start show ?thesis
    by auto
qed

text \<open>The shortest string the handler can answer with, on the failing host.\<close>

theorem C6_nonempty_with_family_token_witness:
  "name call_version = ''getPlatformVersion'' \<and>
   (\<exists>s. snd (custom_tooltip_flutter_plugin_handle_method_call uname_fails plugin0 call_version []) =
      [(call_version, FlMethodSuccessResponse (FlValueString s))] \<and>
    s \<noteq> [] \<and> prefix ''Linux '' s \<and> sublist ''Linux'' s)"
  using C6_nonempty_with_family_token [OF name_call_version, of uname_fails plugin0 "[]"]
  by (auto simp add: name_call_version)

subsection \<open>One response for each call\<close>

text \<open>
  C4. For every method call delivered to it, the handler produces exactly one response,
  not zero and not more than one, and the response has been handed to the transport
  when the handler returns: the transport it returns is the one it was given followed
  by a single response for this call.
\<close>

theorem C4_exactly_one_response:
  "\<exists>response. snd (custom_tooltip_flutter_plugin_handle_method_call os_uname self method_call tr) =
      tr @ [(method_call, response)] \<and>
    length (snd (custom_tooltip_flutter_plugin_handle_method_call os_uname self method_call tr)) = length tr + 1 \<and>
    length (filter (\<lambda>p. fst p = method_call)
      (drop (length tr) (snd (custom_tooltip_flutter_plugin_handle_method_call os_uname self method_call tr)))) = 1"
  by (simp add: handle_cases del: strcmp.simps)

subsection \<open>Failure of the query\<close>

text \<open>
  C5. If the operating-system query fails, the handler still answers the call, so the
  failure never prevents a response: the version call, the one that makes the query,
  is answered with a success response carrying the best-effort string (\<^verbatim>\<open>"Linux "\<close>
  and whatever the \<^verbatim>\<open>version\<close> field of the buffer holds after the failed query),
  and a call that is not answered that way is answered with the not-implemented
  response.
\<close>

theorem C5_response_when_query_fails:
  assumes "fst (os_uname utsname_zero) < 0"
  shows "\<exists>response. custom_tooltip_flutter_plugin_handle_method_call os_uname self method_call tr =
      (self, tr @ [(method_call, response)]) \<and>
    (name method_call = ''getPlatformVersion'' \<longrightarrow>
       response = FlMethodSuccessResponse
         (FlValueString (''Linux '' @ version (snd (os_uname utsname_zero))))) \<and>
    (response = FlMethodNotImplementedResponse \<or>
     response = FlMethodSuccessResponse
       (FlValueString (''Linux '' @ version (snd (os_uname utsname_zero)))))"
proof (cases "name method_call = ''getPlatformVersion''")
  case True
  show ?thesis
    using handle_version [OF True, of os_uname self tr] by simp
next
  case False
  then show ?thesis
    by (simp add: handle_cases del: strcmp.simps)
qed

text \<open>The version call on the host whose query fails and leaves the buffer zeroed.\<close>

theorem C5_response_when_query_fails_witness:
  "fst (uname_fails utsname_zero) < 0 \<and>
   name call_version = ''getPlatformVersion'' \<and>
   custom_tooltip_flutter_plugin_handle_method_call uname_fails plugin0 call_version [] =
     (plugin0, [(call_version, FlMethodSuccessResponse (FlValueString ''Linux ''))])"
proof -
  have failed: "fst (uname_fails utsname_zero) < 0"
    by (simp add: uname_fails_def)
  from failed C5_response_when_query_fails [where os_uname = uname_fails
      and self = plugin0 and method_call = call_version and tr = "[]"]
  obtain response where
    run: "custom_tooltip_flutter_plugin_handle_method_call uname_fails plugin0 call_version [] =
      (plugin0, [] @ [(call_version, response)])"
    and version_call: "name call_version = ''getPlatformVersion'' \<longrightarrow>
      response = FlMethodSuccessResponse
        (FlValueString (''Linux '' @ version (snd (uname_fails utsname_zero))))"
    by blast
  from version_call have "response = FlMethodSuccessResponse (FlValueString ''Linux '')"
    by (simp add: name_call_version uname_fails_zero version_zero)
  with run failed show ?thesis
    by (simp add: name_call_version)
qed

subsection \<open>Recovery inside the handler\<close>

text \<open>
  C7. Both error conditions, an unknown method name and a failed operating-system
  query, are recovered inside the handler: it ends normally, leaves the plugin object as
  it was, and what it passes on is the single response value, a regular
  not-implemented or success response.
\<close>

theorem C7_errors_recovered:
  assumes "(c_string (name method_call) \<and> name method_call \<noteq> ''getPlatformVersion'') \<or>
    fst (os_uname utsname_zero) < 0"
  shows "\<exists>response. custom_tooltip_flutter_plugin_handle_method_call os_uname self method_call tr =
      (self, tr @ [(method_call, response)]) \<and>
    (response = FlMethodNotImplementedResponse \<or>
     (\<exists>s. response = FlMethodSuccessResponse (FlValueString s)))"
  by (simp add: handle_cases del: strcmp.simps)

text \<open>An unknown name on the successful host, and the version call on the failing one.\<close>

theorem C7_errors_recovered_witness:
  "((c_string (name call_other) \<and> name call_other \<noteq> ''getPlatformVersion'') \<or>
      fst (uname_ubuntu utsname_zero) < 0) \<and>
   custom_tooltip_flutter_plugin_handle_method_call uname_ubuntu plugin0 call_other [] =
     (plugin0, [(call_other, FlMethodNotImplementedResponse)]) \<and>
   ((c_string (name call_version) \<and> name call_version \<noteq> ''getPlatformVersion'') \<or>
      fst (uname_fails utsname_zero) < 0) \<and>
   custom_tooltip_flutter_plugin_handle_method_call uname_fails plugin0 call_version [] =
     (plugin0, [(call_version, FlMethodSuccessResponse (FlValueString ''Linux ''))])"
proof -
  have unknown: "(c_string (name call_other) \<and> name call_other \<noteq> ''getPlatformVersion'') \<or>
      fst (uname_ubuntu utsname_zero) < 0"
    by (simp add: call_other_def c_string_def)
  have failed: "(c_string (name call_version) \<and> name call_version \<noteq> ''getPlatformVersion'') \<or>
      fst (uname_fails utsname_zero) < 0"
    by (simp add: uname_fails_def)
  have other: "strcmp (name call_other) ''getPlatformVersion'' \<noteq> 0"
    by (simp add: call_other_def)
  have same: "strcmp (name call_version) ''getPlatformVersion'' = 0"
    by (simp add: name_call_version strcmp_same del: strcmp.simps)
  have first: "custom_tooltip_flutter_plugin_handle_method_call uname_ubuntu plugin0 call_other [] =
     (plugin0, [(call_other, FlMethodNotImplementedResponse)])"
    using unknown other
      C7_errors_recovered [where method_call = call_other and os_uname = uname_ubuntu
        and self = plugin0 and tr = "[]"]
    by (auto simp add: handle_cases simp del: strcmp.simps)
  have second: "custom_tooltip_flutter_plugin_handle_method_call uname_fails plugin0 call_version [] =
     (plugin0, [(call_version, FlMethodSuccessResponse (FlValueString ''Linux ''))])"
    using failed same
      C7_errors_recovered [where method_call = call_version and os_uname = uname_fails
        and self = plugin0 and tr = "[]"]
    by (auto simp add: handle_cases uname_fails_zero version_zero simp del: strcmp.simps)
  from unknown first failed second show ?thesis
    by blast
qed

text \<open>
  C9. The response of the handler is never the error variant: it is a success response
  or the not-implemented response, for every call and every behaviour of the
  operating-system query (a failing one included); for a well-formed name it is the
  success response when the name is \<^verbatim>\<open>getPlatformVersion\<close> and the not-implemented
  response for every other name.
\<close>

theorem C9_never_error_response:
  "\<exists>response. custom_tooltip_flutter_plugin_handle_method_call os_uname self method_call tr =
      (self, tr @ [(method_call, response)]) \<and>
    response \<noteq> FlMethodErrorResponse code message details \<and>
    (c_string (name method_call) \<longrightarrow>
       response =
         (if name method_call = ''getPlatformVersion''
          then FlMethodSuccessResponse
                 (FlValueString (''Linux '' @ version (snd (os_uname utsname_zero))))
          else FlMethodNotImplementedResponse))"
proof (cases "c_string (name method_call)")
  case True
  then have "strcmp (name method_call) ''getPlatformVersion'' = 0 \<longleftrightarrow>
      name method_call = ''getPlatformVersion''"
    using strcmp_zero_iff [OF _ c_string_method] by blast
  then show ?thesis
    by (simp add: handle_cases del: strcmp.simps)
next
  case False
  then show ?thesis
    by (simp add: handle_cases del: strcmp.simps)
qed

theorem C9_never_error_response_witness:
  "c_string (name call_version) \<and>
   custom_tooltip_flutter_plugin_handle_method_call uname_fails plugin0 call_version [] =
     (plugin0, [(call_version, FlMethodSuccessResponse (FlValueString ''Linux ''))]) \<and>
   FlMethodSuccessResponse (FlValueString ''Linux '') \<noteq>
     FlMethodErrorResponse ''UNAME_FAILED'' ''uname failed'' FlValueNull"
proof -
  have wf: "c_string (name call_version)"
    by (simp add: name_call_version c_string_method)
  show ?thesis
    using wf C9_never_error_response [of uname_fails plugin0 call_version "[]"
        "''UNAME_FAILED''" "''uname failed''" FlValueNull]
    by (auto simp add: name_call_version uname_fails_zero version_zero)
qed

subsection \<open>What the response depends on\<close>

text \<open>
  C8. The handler changes no shared or persistent state: it returns the plugin object
  as it was given, and two runs on equal calls under the same operating-system query
  hand over equal responses whatever the plugin object and the transport were before
  each run; in particular a second run right after the first, on the state the first
  left, repeats the response of the first.
\<close>

theorem C8_two_runs_equal:
  "\<exists>response.
     custom_tooltip_flutter_plugin_handle_method_call os_uname self1 method_call tr1 = (self1, tr1 @ [(method_call, response)]) \<and>
     custom_tooltip_flutter_plugin_handle_method_call os_uname self2 method_call tr2 = (self2, tr2 @ [(method_call, response)]) \<and>
     (case custom_tooltip_flutter_plugin_handle_method_call os_uname self1 method_call tr1 of
        (self', tr') \<Rightarrow> custom_tooltip_flutter_plugin_handle_method_call os_uname self' method_call tr') =
       (self1, tr1 @ [(method_call, response), (method_call, response)])"
  by (simp add: handle_cases del: strcmp.simps)

text \<open>
  C10. The response depends only on the name of the call and on the operating-system
  query, never on the arguments of the call: two calls with equal names and any
  arguments get equal responses under the same query.
\<close>

theorem C10_arguments_ignored:
  assumes "name call1 = name call2"
  shows "\<exists>response.
     custom_tooltip_flutter_plugin_handle_method_call os_uname self1 call1 tr1 = (self1, tr1 @ [(call1, response)]) \<and>
     custom_tooltip_flutter_plugin_handle_method_call os_uname self2 call2 tr2 = (self2, tr2 @ [(call2, response)])"
  using assms by (simp add: handle_cases del: strcmp.simps)

theorem C10_arguments_ignored_witness:
  "name call_version = name call_version_args \<and>
   args call_version \<noteq> args call_version_args \<and>
   (\<exists>response.
      custom_tooltip_flutter_plugin_handle_method_call uname_ubuntu plugin0 call_version [] =
        (plugin0, [(call_version, response)]) \<and>
      custom_tooltip_flutter_plugin_handle_method_call uname_ubuntu plugin0 call_version_args [] =
        (plugin0, [(call_version_args, response)]))"
proof -
  have names: "name call_version = name call_version_args"
    by (simp add: call_version_def call_version_args_def)
  have "args call_version \<noteq> args call_version_args"
    by (simp add: call_version_def call_version_args_def)
  with names C10_arguments_ignored [OF names, of uname_ubuntu plugin0 "[]" plugin0 "[]"]
  show ?thesis
    by simp
qed

end
